theory Spec2Isabelle
  imports Main "HOL-Library.Word"
begin

section \<open>Constants of libusb and of the Win32 API\<close>

text \<open>
  The return codes of \<^verbatim>\<open>libusb.h\<close> and the Win32 constants the hotplug monitor compares
  against. \<^verbatim>\<open>SUCCEEDED(hr)\<close> is the Win32 macro \<^verbatim>\<open>((HRESULT)(hr)) >= 0\<close>: the value
  is cut to a signed 32-bit integer before the comparison.
\<close>

definition LIBUSB_SUCCESS :: int where
  "LIBUSB_SUCCESS = 0"

definition LIBUSB_ERROR_OTHER :: int where
  "LIBUSB_ERROR_OTHER = - 99"

definition WAIT_OBJECT_0 :: "32 word" where
  "WAIT_OBJECT_0 = 0"

definition BROADCAST_QUERY_DENY :: int where
  "BROADCAST_QUERY_DENY = 0x424D5144"

definition DBT_DEVICEARRIVAL :: nat where
  "DBT_DEVICEARRIVAL = 0x8000"

definition DBT_DEVICEREMOVECOMPLETE :: nat where
  "DBT_DEVICEREMOVECOMPLETE = 0x8004"

definition DBT_DEVTYP_DEVICEINTERFACE :: nat where
  "DBT_DEVTYP_DEVICEINTERFACE = 5"

definition SUCCEEDED :: "int \<Rightarrow> bool" where
  "SUCCEEDED hr = (0 \<le> sint (word_of_int hr :: 32 word))"

section \<open>Data model\<close>

text \<open>
  A handle (\<^verbatim>\<open>HWND\<close>, \<^verbatim>\<open>HANDLE\<close>, \<^verbatim>\<open>HDEVNOTIFY\<close>) is \<open>None\<close> when it is \<^verbatim>\<open>NULL\<close>.
\<close>

type_synonym HANDLE = "nat option"

text \<open>
  Modelled from the spec: the enumeration \<^verbatim>\<open>discovery_status\<close> is declared in
  \<^verbatim>\<open>windows_common.h\<close>, which is not part of the sources at hand. The code names
  \<^verbatim>\<open>NO_LONGER_DISCOVERED\<close> and \<^verbatim>\<open>NEWLY_DISCOVERED\<close>; the spec lists the four values
  NotYetSeen, StillPresent, NewlyDiscovered, NoLongerDiscovered.
\<close>

datatype discovery_status = NOT_YET_SEEN | STILL_PRESENT | NEWLY_DISCOVERED | NO_LONGER_DISCOVERED

text \<open>
  One node of a context's device list. \<open>identity\<close> is the key by which the enumerator
  correlates a device across refresh cycles; \<open>discovery_status\<close> and \<open>initialized\<close> are the
  two fields of \<^verbatim>\<open>struct winusb_device_priv\<close> that the monitor reads and writes.
\<close>

record libusb_device =
  identity :: nat
  discovery_status :: discovery_status
  initialized :: bool

text \<open>
  A context owns its device list and reaches the enumerator through
  \<^verbatim>\<open>priv->backend->get_device_list\<close>. The enumerator is an external collaborator: it is a
  field of the context, a function from the list it is handed to its return code and the list
  it leaves behind.
\<close>

record libusb_context =
  ctx_id :: nat
  usb_devs :: "libusb_device list"
  backend_get_device_list :: "libusb_device list \<Rightarrow> int \<times> libusb_device list"

datatype hotplug_event = DEVICE_ARRIVED | DEVICE_LEFT

datatype message =
    WM_CREATE
  | WM_DEVICECHANGE nat nat
  | WM_CLOSE
  | WM_DESTROY
  | WM_OTHER nat

datatype os_call =
    CreateThread
  | RegisterClass
  | CreateWindow
  | RegisterDeviceNotification nat
  | UnregisterDeviceNotification HANDLE
  | DestroyWindow nat
  | PostQuitMessage
  | DefWindowProc nat
  | GetMessage
  | TranslateMessage
  | DispatchMessage
  | SendMessage nat message
  | WaitForSingleObject HANDLE
  | CloseHandle HANDLE

text \<open>
  Everything the monitor does to the outside is recorded, in order, as a list of events:
  log lines, the registry lock, the call of the enumerator, the removal helpers, the arrival
  notification, and the Win32 calls.
\<close>

datatype event =
    Log_error string
  | Usbi_err nat int
  | Usbi_dbg string
  | Mutex_lock
  | Mutex_unlock
  | Get_device_list nat
  | Disconnect_device nat libusb_device
  | Detach_device nat libusb_device
  | Hotplug_notification nat libusb_device hotplug_event
  | Os_call os_call

fun is_removal :: "event \<Rightarrow> bool" where
  "is_removal (Disconnect_device c d) = True"
| "is_removal (Detach_device c d) = True"
| "is_removal e = False"

fun is_arrival :: "event \<Rightarrow> bool" where
  "is_arrival (Hotplug_notification c d DEVICE_ARRIVED) = True"
| "is_arrival e = False"

fun is_enumeration :: "event \<Rightarrow> bool" where
  "is_enumeration (Get_device_list c) = True"
| "is_enumeration e = False"

section \<open>Helpers of the library core\<close>

text \<open>
  Modelled from the spec: \<^verbatim>\<open>usbi_disconnect_device\<close> and \<^verbatim>\<open>usbi_detach_device\<close> belong to
  the library core and are not part of the sources at hand. The spec: they "remove a device
  entry, the former also notifying the application of disconnection, the latter silent".
  Each unlinks the node it is given from the context's list and leaves the other nodes alone;
  the call itself is the event.
\<close>

definition usbi_disconnect_device :: "libusb_device \<Rightarrow> libusb_context \<Rightarrow> libusb_context \<times> event list" where
  "usbi_disconnect_device dev ctx =
     (ctx\<lparr>usb_devs := removeAll dev (usb_devs ctx)\<rparr>, [Disconnect_device (ctx_id ctx) dev])"

definition usbi_detach_device :: "libusb_device \<Rightarrow> libusb_context \<Rightarrow> libusb_context \<times> event list" where
  "usbi_detach_device dev ctx =
     (ctx\<lparr>usb_devs := removeAll dev (usb_devs ctx)\<rparr>, [Detach_device (ctx_id ctx) dev])"

text \<open>
  Modelled from the spec: \<^verbatim>\<open>usbi_hotplug_notification\<close> "delivers an arrival notification
  to registered listeners"; it does not touch the device list.
\<close>

definition usbi_hotplug_notification :: "libusb_context \<Rightarrow> libusb_device \<Rightarrow> hotplug_event \<Rightarrow> event list" where
  "usbi_hotplug_notification ctx dev ev = [Hotplug_notification (ctx_id ctx) dev ev]"

section \<open>Discovery reconciler\<close>

text \<open>
  \<^verbatim>\<open>windows_get_device_list\<close>: the \<^verbatim>\<open>for_each_device\<close> loop writes
  \<^verbatim>\<open>NO_LONGER_DISCOVERED\<close> into every node, then the enumerator of the context runs on
  the list so marked; its return code is the function's.
\<close>

definition mark_no_longer_discovered :: "libusb_device list \<Rightarrow> libusb_device list" where
  "mark_no_longer_discovered devs = map (\<lambda>dev. dev\<lparr>discovery_status := NO_LONGER_DISCOVERED\<rparr>) devs"

definition windows_get_device_list :: "libusb_context \<Rightarrow> int \<times> libusb_context \<times> event list" where
  "windows_get_device_list ctx =
     (case backend_get_device_list ctx (mark_no_longer_discovered (usb_devs ctx)) of
        (ret, devs) \<Rightarrow> (ret, ctx\<lparr>usb_devs := devs\<rparr>, [Get_device_list (ctx_id ctx)]))"

text \<open>
  The first loop of \<^verbatim>\<open>windows_refresh_device_list\<close>, \<^verbatim>\<open>for_each_device_safe\<close>: it walks
  the nodes that were linked when it started (the next pointer is read before the body runs),
  while the helpers unlink nodes from the context's list.
\<close>

fun remove_loop :: "libusb_device list \<Rightarrow> libusb_context \<Rightarrow> libusb_context \<times> event list" where
  "remove_loop [] ctx = (ctx, [])"
| "remove_loop (dev # next_devs) ctx =
     (if discovery_status dev \<noteq> NO_LONGER_DISCOVERED then remove_loop next_devs ctx
      else case (if initialized dev then usbi_disconnect_device dev ctx
                 else usbi_detach_device dev ctx) of
             (ctx1, evs1) \<Rightarrow>
               (case remove_loop next_devs ctx1 of (ctx2, evs2) \<Rightarrow> (ctx2, evs1 @ evs2)))"

text \<open>The second loop, \<^verbatim>\<open>for_each_device\<close>, over the list as the first loop left it.\<close>

fun arrive_loop :: "libusb_context \<Rightarrow> libusb_device list \<Rightarrow> event list" where
  "arrive_loop ctx [] = []"
| "arrive_loop ctx (dev # devs) =
     (if discovery_status dev \<noteq> NEWLY_DISCOVERED then arrive_loop ctx devs
      else usbi_hotplug_notification ctx dev DEVICE_ARRIVED @ arrive_loop ctx devs)"

definition windows_refresh_device_list :: "libusb_context \<Rightarrow> libusb_context \<times> event list" where
  "windows_refresh_device_list ctx =
     (case windows_get_device_list ctx of
        (ret, ctx1, evs0) \<Rightarrow>
          if ret \<noteq> LIBUSB_SUCCESS then (ctx1, evs0 @ [Usbi_err (ctx_id ctx1) ret])
          else case remove_loop (usb_devs ctx1) ctx1 of
                 (ctx2, evs1) \<Rightarrow> (ctx2, evs0 @ evs1 @ arrive_loop ctx2 (usb_devs ctx2)))"

text \<open>
  \<^verbatim>\<open>windows_initial_scan_devices\<close>: one enumeration of one context, under the registry lock.
\<close>

definition windows_initial_scan_devices :: "libusb_context \<Rightarrow> int \<times> libusb_context \<times> event list" where
  "windows_initial_scan_devices ctx =
     (case windows_get_device_list ctx of
        (ret, ctx1, evs) \<Rightarrow> (ret, ctx1, [Mutex_lock] @ evs @ [Mutex_unlock]))"

section \<open>Process-wide state and the operating system\<close>

text \<open>
  The two file-scope handles, the function-static notification handle of the window
  procedure, the registry of active contexts, and the record of events so far.
\<close>

record hotplug_state =
  windows_event_hWnd :: HANDLE
  windows_event_thread_handle :: HANDLE
  device_notify_handle :: HANDLE
  active_contexts :: "libusb_context list"
  trace :: "event list"

text \<open>
  What the operating system answers to each call. \<open>CreateWindow_handle\<close> is the window the
  system allocates before it delivers \<^verbatim>\<open>WM_CREATE\<close>; \<open>WaitForSingleObject_result\<close> is
  \<open>None\<close> when the wait (timeout \<^verbatim>\<open>INFINITE\<close>) never returns.
\<close>

record os_env =
  CreateThread_result :: HANDLE
  RegisterClass_ok :: bool
  CreateWindow_handle :: HANDLE
  RegisterDeviceNotification_result :: HANDLE
  UnregisterDeviceNotification_ok :: bool
  DestroyWindow_ok :: bool
  DefWindowProc_result :: int
  TranslateMessage_result :: int
  WaitForSingleObject_result :: "32 word option"
  CloseHandle_ok :: bool

definition emit :: "event list \<Rightarrow> hotplug_state \<Rightarrow> hotplug_state" where
  "emit evs s = s\<lparr>trace := trace s @ evs\<rparr>"

text \<open>The macro \<^verbatim>\<open>log_error(operation)\<close>.\<close>

definition log_error :: "string \<Rightarrow> hotplug_state \<Rightarrow> hotplug_state" where
  "log_error operation s = emit [Log_error operation] s"

section \<open>Context-wide refresh dispatch\<close>

text \<open>The \<^verbatim>\<open>for_each_context\<close> loop of \<^verbatim>\<open>windows_refresh_device_list_for_all_ctx\<close>.\<close>

fun refresh_loop :: "libusb_context list \<Rightarrow> hotplug_state \<Rightarrow> libusb_context list \<times> hotplug_state" where
  "refresh_loop [] s = ([], s)"
| "refresh_loop (ctx # ctxs) s =
     (case windows_refresh_device_list ctx of
        (ctx', evs) \<Rightarrow>
          (case refresh_loop ctxs (emit evs s) of (ctxs', s') \<Rightarrow> (ctx' # ctxs', s')))"

definition windows_refresh_device_list_for_all_ctx :: "hotplug_state \<Rightarrow> hotplug_state" where
  "windows_refresh_device_list_for_all_ctx s =
     (case refresh_loop (active_contexts s) (emit [Mutex_lock] s) of
        (ctxs', s') \<Rightarrow> emit [Mutex_unlock] (s'\<lparr>active_contexts := ctxs'\<rparr>))"

section \<open>Event monitor thread\<close>

definition init_wnd_class :: "os_env \<Rightarrow> hotplug_state \<Rightarrow> bool \<times> hotplug_state" where
  "init_wnd_class env s =
     (if \<not> RegisterClass_ok env
      then (False, log_error ''RegisterClassEx'' (emit [Os_call RegisterClass] s))
      else (True, emit [Os_call RegisterClass] s))"

definition register_device_interface_to_window_handle :: "os_env \<Rightarrow> nat \<Rightarrow> hotplug_state \<Rightarrow> bool \<times> hotplug_state" where
  "register_device_interface_to_window_handle env hWnd s =
     (let s1 = (emit [Os_call (RegisterDeviceNotification hWnd)] s)
                 \<lparr>device_notify_handle := RegisterDeviceNotification_result env\<rparr>
      in if device_notify_handle s1 = None
         then (False, log_error ''register_device_interface_to_window_handle'' s1)
         else (True, s1))"

text \<open>
  \<^verbatim>\<open>windows_proc_callback\<close>. A \<^verbatim>\<open>WM_DEVICECHANGE\<close> message carries \<^verbatim>\<open>wParam\<close> and the
  \<^verbatim>\<open>dbch_devicetype\<close> of the header \<^verbatim>\<open>lParam\<close> points to.
\<close>

fun windows_proc_callback :: "os_env \<Rightarrow> nat \<Rightarrow> message \<Rightarrow> hotplug_state \<Rightarrow> int \<times> hotplug_state" where
  "windows_proc_callback env hWnd WM_CREATE s =
     (case register_device_interface_to_window_handle env hWnd s of
        (ok, s1) \<Rightarrow> if \<not> ok then (- 1, s1) else (0, s1))"
| "windows_proc_callback env hWnd (WM_DEVICECHANGE wParam devicetype) s =
     (if (wParam = DBT_DEVICEARRIVAL \<or> wParam = DBT_DEVICEREMOVECOMPLETE)
         \<and> devicetype = DBT_DEVTYP_DEVICEINTERFACE
      then (1, windows_refresh_device_list_for_all_ctx s)
      else (BROADCAST_QUERY_DENY, s))"
| "windows_proc_callback env hWnd WM_CLOSE s =
     (let s1 = emit [Os_call (UnregisterDeviceNotification (device_notify_handle s))] s;
          s2 = (if \<not> UnregisterDeviceNotification_ok env
                then log_error ''UnregisterDeviceNotification'' s1 else s1);
          s3 = emit [Os_call (DestroyWindow hWnd)] s2;
          s4 = (if \<not> DestroyWindow_ok env then log_error ''DestroyWindow'' s3 else s3)
      in (0, s4))"
| "windows_proc_callback env hWnd WM_DESTROY s = (0, emit [Os_call PostQuitMessage] s)"
| "windows_proc_callback env hWnd (WM_OTHER m) s =
     (DefWindowProc_result env, emit [Os_call (DefWindowProc hWnd)] s)"

text \<open>
  The Win32 call \<^verbatim>\<open>CreateWindow\<close>, as documented: the system delivers \<^verbatim>\<open>WM_CREATE\<close> to the
  window procedure before the call returns, and when the procedure answers \<open>-1\<close> the window
  is destroyed and the call returns \<^verbatim>\<open>NULL\<close>.
\<close>

definition os_CreateWindow :: "os_env \<Rightarrow> hotplug_state \<Rightarrow> HANDLE \<times> hotplug_state" where
  "os_CreateWindow env s =
     (case CreateWindow_handle env of
        None \<Rightarrow> (None, emit [Os_call CreateWindow] s)
      | Some h \<Rightarrow>
          (case windows_proc_callback env h WM_CREATE (emit [Os_call CreateWindow] s) of
             (r, s1) \<Rightarrow> (if r = - 1 then None else Some h, s1)))"

text \<open>
  The wait loop of the thread, entered with the window \<open>hWnd\<close> that
  \<^verbatim>\<open>windows_event_hWnd\<close> holds. The system's answers to \<^verbatim>\<open>GetMessage\<close> come as a list of
  pairs (return value, message); \<^verbatim>\<open>DispatchMessage\<close> runs the window procedure and returns
  its result. When the list is used up the thread stays blocked in \<^verbatim>\<open>GetMessage\<close>: the loop
  has not ended (\<open>False\<close>).
\<close>

fun message_loop :: "os_env \<Rightarrow> nat \<Rightarrow> (int \<times> message) list \<Rightarrow> hotplug_state \<Rightarrow> bool \<times> hotplug_state" where
  "message_loop env hWnd [] s = (False, emit [Os_call GetMessage] s)"
| "message_loop env hWnd ((ret_val, msg) # rest) s =
     (let s1 = emit [Os_call GetMessage] s
      in if ret_val = 0 then (True, s1)
         else if ret_val = - 1 then (True, log_error ''GetMessage'' s1)
         else
           (let s2 = emit [Os_call TranslateMessage] s1;
                s3 = (if \<not> SUCCEEDED (TranslateMessage_result env)
                      then log_error ''GetMessage'' s2 else s2)
            in case windows_proc_callback env hWnd msg (emit [Os_call DispatchMessage] s3) of
                 (r, s4) \<Rightarrow>
                   message_loop env hWnd rest
                     (if \<not> SUCCEEDED r then log_error ''DispatchMessage'' s4 else s4)))"

text \<open>
  \<^verbatim>\<open>windows_event_thread_main\<close>. The result is the thread's exit code, \<open>None\<close> while the
  thread is blocked in its wait loop. \<^verbatim>\<open>(DWORD)-1\<close> is \<open>- 1\<close> in 32 bits.
\<close>

definition windows_event_thread_main :: "os_env \<Rightarrow> (int \<times> message) list \<Rightarrow> hotplug_state \<Rightarrow> 32 word option \<times> hotplug_state" where
  "windows_event_thread_main env script s =
     (case init_wnd_class env (emit [Usbi_dbg ''windows event thread entering''] s) of
        (ok, s1) \<Rightarrow>
          if \<not> ok then (Some (- 1), s1)
          else
            (case os_CreateWindow env s1 of
               (h, s2) \<Rightarrow>
                 (let s3 = s2\<lparr>windows_event_hWnd := h\<rparr>
                  in case windows_event_hWnd s3 of
                       None \<Rightarrow> (Some (- 1), log_error ''CreateWindow'' s3)
                     | Some hWnd \<Rightarrow>
                         (case message_loop env hWnd script s3 of
                            (finished, s4) \<Rightarrow>
                              if finished
                              then (Some 0, emit [Usbi_dbg ''windows event thread exiting''] s4)
                              else (None, s4)))))"

section \<open>Lifecycle controller\<close>

definition windows_start_event_monitor :: "os_env \<Rightarrow> hotplug_state \<Rightarrow> int \<times> hotplug_state" where
  "windows_start_event_monitor env s =
     (let s1 = (emit [Os_call CreateThread] s)
                 \<lparr>windows_event_thread_handle := CreateThread_result env\<rparr>
      in if windows_event_thread_handle s1 = None
         then (LIBUSB_ERROR_OTHER, log_error ''CreateThread'' s1)
         else (LIBUSB_SUCCESS, s1))"

text \<open>
  The Win32 call \<^verbatim>\<open>SendMessage\<close>, as documented: it runs the window procedure of the window
  on the message and returns what the procedure answers.
\<close>

definition os_SendMessage :: "os_env \<Rightarrow> nat \<Rightarrow> message \<Rightarrow> hotplug_state \<Rightarrow> int \<times> hotplug_state" where
  "os_SendMessage env hWnd msg s =
     windows_proc_callback env hWnd msg (emit [Os_call (SendMessage hWnd msg)] s)"

text \<open>
  \<^verbatim>\<open>windows_stop_event_monitor\<close>. The result is \<open>None\<close> when the join never returns. The
  third log line names \<^verbatim>\<open>WaitForSingleObject\<close>, as the source does.
\<close>

definition windows_stop_event_monitor :: "os_env \<Rightarrow> hotplug_state \<Rightarrow> int option \<times> hotplug_state" where
  "windows_stop_event_monitor env s =
     (case windows_event_hWnd s of
        None \<Rightarrow> (Some LIBUSB_SUCCESS, s)
      | Some hWnd \<Rightarrow>
          (case os_SendMessage env hWnd WM_CLOSE s of
             (r, s1) \<Rightarrow>
               (let s2 = (if \<not> SUCCEEDED r then log_error ''SendMessage'' s1 else s1);
                    ret = LIBUSB_SUCCESS;
                    s3 = emit [Os_call (WaitForSingleObject (windows_event_thread_handle s2))] s2
                in case WaitForSingleObject_result env of
                     None \<Rightarrow> (None, s3)
                   | Some w \<Rightarrow>
                       (let s4 = (if w \<noteq> WAIT_OBJECT_0
                                  then log_error ''WaitForSingleObject'' s3 else s3);
                            ret1 = (if w \<noteq> WAIT_OBJECT_0 then LIBUSB_ERROR_OTHER else ret);
                            s5 = emit [Os_call (CloseHandle (windows_event_thread_handle s4))] s4;
                            s6 = (if \<not> CloseHandle_ok env
                                  then log_error ''WaitForSingleObject'' s5 else s5);
                            ret2 = (if \<not> CloseHandle_ok env then LIBUSB_ERROR_OTHER else ret1)
                        in (Some ret2, s6)))))"

section \<open>The enumerator, as the spec describes it\<close>

text \<open>
  Modelled from the spec: the device enumerator adapter, \<^verbatim>\<open>backend->get_device_list\<close>, is an
  external collaborator whose code is not part of the sources at hand. The spec: "for each
  physically present device: if it matches an existing entry by identity, set status
  StillPresent; otherwise insert a new entry with status NewlyDiscovered". \<open>present\<close> lists the
  identities attached to the bus; \<open>setup_ok\<close> tells whether the setup of a new device
  completes.
\<close>

definition enumerator_adapter :: "nat list \<Rightarrow> (nat \<Rightarrow> bool) \<Rightarrow> libusb_device list \<Rightarrow> int \<times> libusb_device list" where
  "enumerator_adapter present setup_ok devs =
     (LIBUSB_SUCCESS,
      map (\<lambda>dev. if identity dev \<in> set present then dev\<lparr>discovery_status := STILL_PRESENT\<rparr> else dev) devs
      @ map (\<lambda>p. \<lparr>identity = p, discovery_status = NEWLY_DISCOVERED, initialized = setup_ok p\<rparr>)
          (filter (\<lambda>p. p \<notin> identity ` set devs) (remdups present)))"

text \<open>
  An enumerator that fails with code \<open>ret\<close> before it has touched any entry.
\<close>

definition enumeration_failure :: "int \<Rightarrow> libusb_device list \<Rightarrow> int \<times> libusb_device list" where
  "enumeration_failure ret devs = (ret, devs)"

section \<open>Vocabulary of the statements\<close>

text \<open>
  The event of removing a device in the first loop, and of announcing one in the second.
\<close>

definition removal_event :: "nat \<Rightarrow> libusb_device \<Rightarrow> event" where
  "removal_event c dev = (if initialized dev then Disconnect_device c dev else Detach_device c dev)"

definition arrival_event :: "nat \<Rightarrow> libusb_device \<Rightarrow> event" where
  "arrival_event c dev = Hotplug_notification c dev DEVICE_ARRIVED"

text \<open>
  The subscription at thread start fails when the window class cannot be registered, when the
  system cannot create the window, or when the device notification cannot be registered while
  the window is being created.
\<close>

definition subscription_fails :: "os_env \<Rightarrow> bool" where
  "subscription_fails env =
     (\<not> RegisterClass_ok env \<or> CreateWindow_handle env = None
      \<or> RegisterDeviceNotification_result env = None)"

text \<open>
  The events recorded between two states of one run.
\<close>

definition events_since :: "hotplug_state \<Rightarrow> hotplug_state \<Rightarrow> event list" where
  "events_since s s' = drop (length (trace s)) (trace s')"

section \<open>Concrete states and environments\<close>

text \<open>
  The state of a process in which the monitor was never started: the file-scope handles are
  zero-initialised.
\<close>

definition never_started :: "libusb_context list \<Rightarrow> hotplug_state" where
  "never_started ctxs =
     \<lparr>windows_event_hWnd = None, windows_event_thread_handle = None,
      device_notify_handle = None, active_contexts = ctxs, trace = []\<rparr>"

text \<open>
  An operating system on which every call succeeds, and two on which one call fails.
\<close>

definition os_healthy :: os_env where
  "os_healthy =
     \<lparr>CreateThread_result = Some 11, RegisterClass_ok = True, CreateWindow_handle = Some 22,
      RegisterDeviceNotification_result = Some 33, UnregisterDeviceNotification_ok = True,
      DestroyWindow_ok = True, DefWindowProc_result = 0, TranslateMessage_result = 1,
      WaitForSingleObject_result = Some 0, CloseHandle_ok = True\<rparr>"

definition os_no_window_class :: os_env where
  "os_no_window_class = os_healthy\<lparr>RegisterClass_ok := False\<rparr>"


text \<open>
  A context that knows three devices, two of them set up and one not. The bus now holds
  device 1 and a new device 4: devices 2 and 3 have gone.
\<close>

definition dev_A :: libusb_device where
  "dev_A = \<lparr>identity = 1, discovery_status = STILL_PRESENT, initialized = True\<rparr>"

definition dev_B :: libusb_device where
  "dev_B = \<lparr>identity = 2, discovery_status = STILL_PRESENT, initialized = True\<rparr>"

definition dev_U :: libusb_device where
  "dev_U = \<lparr>identity = 3, discovery_status = NEWLY_DISCOVERED, initialized = False\<rparr>"

definition example_ctx :: libusb_context where
  "example_ctx = \<lparr>ctx_id = 0, usb_devs = [dev_A, dev_B, dev_U],
                  backend_get_device_list = enumerator_adapter [1, 4] (\<lambda>p. True)\<rparr>"

text \<open>
  A context whose enumerator fails, and the entries of the first context after enumeration.
\<close>

definition failing_ctx :: libusb_context where
  "failing_ctx = \<lparr>ctx_id = 1, usb_devs = [dev_A, dev_B],
                  backend_get_device_list = enumeration_failure LIBUSB_ERROR_OTHER\<rparr>"

definition dev_B_gone :: libusb_device where
  "dev_B_gone = \<lparr>identity = 2, discovery_status = NO_LONGER_DISCOVERED, initialized = True\<rparr>"

definition dev_A_seen :: libusb_device where
  "dev_A_seen = \<lparr>identity = 1, discovery_status = STILL_PRESENT, initialized = True\<rparr>"

definition example_enumerated :: libusb_context where
  "example_enumerated = fst (snd (windows_get_device_list example_ctx))"

text \<open>
  The state once the monitor has been started and its thread waits for messages.
\<close>

definition monitor_running :: hotplug_state where
  "monitor_running =
     snd (windows_event_thread_main os_healthy []
            (snd (windows_start_event_monitor os_healthy (never_started []))))"

text \<open>
  The monitor stopped after that run, and then a second start whose thread cannot register the
  window class again.
\<close>

definition stopped_once :: hotplug_state where
  "stopped_once = snd (windows_stop_event_monitor os_healthy monitor_running)"

definition restarted :: hotplug_state where
  "restarted = snd (windows_start_event_monitor os_no_window_class stopped_once)"

definition restart_failed :: hotplug_state where
  "restart_failed = snd (windows_event_thread_main os_no_window_class [] restarted)"

section \<open>The two loops of the reconciler in closed form\<close>

lemma remove_loop_eq:
  "remove_loop xs ctx =
     (ctx\<lparr>usb_devs := filter (\<lambda>d. \<not> (d \<in> set xs \<and> discovery_status d = NO_LONGER_DISCOVERED)) (usb_devs ctx)\<rparr>,
      map (removal_event (ctx_id ctx)) (filter (\<lambda>d. discovery_status d = NO_LONGER_DISCOVERED) xs))"
proof (induction xs arbitrary: ctx)
  case Nil
  then show ?case by simp
next
  case (Cons x xs)
  show ?case
  proof (cases "discovery_status x = NO_LONGER_DISCOVERED")
    case False
    have "filter (\<lambda>d. \<not> (d \<in> set (x # xs) \<and> discovery_status d = NO_LONGER_DISCOVERED)) (usb_devs ctx)
        = filter (\<lambda>d. \<not> (d \<in> set xs \<and> discovery_status d = NO_LONGER_DISCOVERED)) (usb_devs ctx)"
      using False by (intro filter_cong) auto
    with False Cons.IH [of ctx] show ?thesis by simp
  next
    case True
    have "filter (\<lambda>d. \<not> (d \<in> set xs \<and> discovery_status d = NO_LONGER_DISCOVERED)) (removeAll x (usb_devs ctx))
        = filter (\<lambda>d. \<not> (d \<in> set (x # xs) \<and> discovery_status d = NO_LONGER_DISCOVERED)) (usb_devs ctx)"
      using True unfolding removeAll_filter_not_eq filter_filter
      by (intro filter_cong) auto
    with True show ?thesis
      by (simp add: Cons.IH usbi_disconnect_device_def usbi_detach_device_def removal_event_def)
  qed
qed

lemma arrive_loop_eq:
  "arrive_loop ctx xs =
     map (arrival_event (ctx_id ctx)) (filter (\<lambda>d. discovery_status d = NEWLY_DISCOVERED) xs)"
  by (induction xs) (simp_all add: usbi_hotplug_notification_def arrival_event_def)

lemma get_device_list_ctx_id:
  "windows_get_device_list ctx = (ret, ctx1, evs0) \<Longrightarrow> ctx_id ctx1 = ctx_id ctx \<and> evs0 = [Get_device_list (ctx_id ctx)]
    \<and> backend_get_device_list ctx1 = backend_get_device_list ctx"
  by (auto simp: windows_get_device_list_def split: prod.splits)

lemma remove_loop_self:
  "remove_loop (usb_devs ctx) ctx =
     (ctx\<lparr>usb_devs := filter (\<lambda>d. discovery_status d \<noteq> NO_LONGER_DISCOVERED) (usb_devs ctx)\<rparr>,
      map (removal_event (ctx_id ctx)) (filter (\<lambda>d. discovery_status d = NO_LONGER_DISCOVERED) (usb_devs ctx)))"
proof -
  have "filter (\<lambda>d. \<not> (d \<in> set (usb_devs ctx) \<and> discovery_status d = NO_LONGER_DISCOVERED)) (usb_devs ctx)
      = filter (\<lambda>d. discovery_status d \<noteq> NO_LONGER_DISCOVERED) (usb_devs ctx)"
    by (intro filter_cong) auto
  then show ?thesis
    unfolding remove_loop_eq by simp
qed

lemma filter_newly_after_removal:
  "filter (\<lambda>d. discovery_status d \<noteq> NO_LONGER_DISCOVERED \<and> discovery_status d = NEWLY_DISCOVERED) xs
   = filter (\<lambda>d. discovery_status d = NEWLY_DISCOVERED) xs"
  by (intro filter_cong) auto

lemma refresh_success:
  assumes "windows_get_device_list ctx = (LIBUSB_SUCCESS, ctx1, evs0)"
  shows "windows_refresh_device_list ctx =
     (ctx1\<lparr>usb_devs := filter (\<lambda>d. discovery_status d \<noteq> NO_LONGER_DISCOVERED) (usb_devs ctx1)\<rparr>,
      [Get_device_list (ctx_id ctx)]
      @ map (removal_event (ctx_id ctx)) (filter (\<lambda>d. discovery_status d = NO_LONGER_DISCOVERED) (usb_devs ctx1))
      @ map (arrival_event (ctx_id ctx)) (filter (\<lambda>d. discovery_status d = NEWLY_DISCOVERED) (usb_devs ctx1)))"
proof -
  have ids: "ctx_id ctx1 = ctx_id ctx" "evs0 = [Get_device_list (ctx_id ctx)]"
    using get_device_list_ctx_id [OF assms] by simp_all
  have "windows_refresh_device_list ctx =
      (case remove_loop (usb_devs ctx1) ctx1 of
         (ctx2, evs1) \<Rightarrow> (ctx2, evs0 @ evs1 @ arrive_loop ctx2 (usb_devs ctx2)))"
    by (simp add: windows_refresh_device_list_def assms)
  also have "\<dots> = (ctx1\<lparr>usb_devs := filter (\<lambda>d. discovery_status d \<noteq> NO_LONGER_DISCOVERED) (usb_devs ctx1)\<rparr>,
      evs0 @ map (removal_event (ctx_id ctx1)) (filter (\<lambda>d. discovery_status d = NO_LONGER_DISCOVERED) (usb_devs ctx1))
      @ map (arrival_event (ctx_id ctx1)) (filter (\<lambda>d. discovery_status d = NEWLY_DISCOVERED) (usb_devs ctx1)))"
    unfolding remove_loop_self arrive_loop_eq
    by (simp add: filter_newly_after_removal)
  finally show ?thesis
    by (simp only: ids)
qed

lemma refresh_failure:
  assumes "windows_get_device_list ctx = (ret, ctx1, evs0)" and "ret \<noteq> LIBUSB_SUCCESS"
  shows "windows_refresh_device_list ctx = (ctx1, [Get_device_list (ctx_id ctx), Usbi_err (ctx_id ctx) ret])"
  using get_device_list_ctx_id [OF assms(1)] assms
  by (simp add: windows_refresh_device_list_def)

lemma refresh_collapse:
  "windows_refresh_device_list ctx
     = (fst (windows_refresh_device_list ctx), snd (windows_refresh_device_list ctx))"
  by simp

lemma removal_event_kind: "is_removal (removal_event c d) \<and> \<not> is_arrival (removal_event c d)"
  by (simp add: removal_event_def)

lemma arrival_event_kind: "is_arrival (arrival_event c d) \<and> \<not> is_removal (arrival_event c d)"
  by (simp add: arrival_event_def)

lemma nth_append3_order:
  assumes ev: "evs = pre @ rem @ arr"
    and pre: "\<forall>e\<in>set pre. \<not> is_removal e \<and> \<not> is_arrival e"
    and rem: "\<forall>e\<in>set rem. \<not> is_arrival e"
    and arr: "\<forall>e\<in>set arr. \<not> is_removal e"
    and i: "i < length evs" "is_removal (evs ! i)"
    and j: "j < length evs" "is_arrival (evs ! j)"
  shows "i < j"
proof -
  have i1: "length pre \<le> i"
  proof (rule ccontr)
    assume "\<not> length pre \<le> i"
    then have "evs ! i \<in> set pre" by (simp add: ev nth_append)
    with pre i(2) show False by blast
  qed
  have i2: "i < length pre + length rem"
  proof (rule ccontr)
    assume a: "\<not> i < length pre + length rem"
    with i(1) have "evs ! i = arr ! (i - length pre - length rem)" "i - length pre - length rem < length arr"
      by (auto simp: ev nth_append)
    then have "evs ! i \<in> set arr" by simp
    with arr i(2) show False by blast
  qed
  have j1: "length pre + length rem \<le> j"
  proof (rule ccontr)
    assume a: "\<not> length pre + length rem \<le> j"
    show False
    proof (cases "j < length pre")
      case True
      then have "evs ! j \<in> set pre" by (simp add: ev nth_append)
      with pre j(2) show False by blast
    next
      case False
      with a have "evs ! j = rem ! (j - length pre)" "j - length pre < length rem"
        by (auto simp: ev nth_append)
      then have "evs ! j \<in> set rem" by simp
      with rem j(2) show False by blast
    qed
  qed
  from i2 j1 show ?thesis by simp
qed

lemma count_list_map_removal_disconnect:
  "count_list (map (removal_event c) xs) (Disconnect_device c' dev)
     = (if initialized dev \<and> c' = c then count_list xs dev else 0)"
  by (induction xs) (auto simp: removal_event_def)

lemma count_list_map_removal_detach:
  "count_list (map (removal_event c) xs) (Detach_device c' dev)
     = (if \<not> initialized dev \<and> c' = c then count_list xs dev else 0)"
  by (induction xs) (auto simp: removal_event_def)

lemma count_list_map_arrival_removal:
  "count_list (map (arrival_event c) xs) (Disconnect_device c' dev) = 0"
  "count_list (map (arrival_event c) xs) (Detach_device c' dev) = 0"
  by (induction xs) (auto simp: arrival_event_def)

lemma count_list_filter: "count_list (filter P xs) x = (if P x then count_list xs x else 0)"
  by (induction xs) auto

lemma count_list_distinct: "distinct xs \<Longrightarrow> x \<in> set xs \<Longrightarrow> count_list xs x = 1"
  by (induction xs) (auto simp: count_list_0_iff)

lemma mark_props:
  "map identity (mark_no_longer_discovered devs) = map identity devs"
  "map initialized (mark_no_longer_discovered devs) = map initialized devs"
  "\<forall>d\<in>set (mark_no_longer_discovered devs). discovery_status d = NO_LONGER_DISCOVERED"
  by (auto simp: mark_no_longer_discovered_def)

lemma mark_identity_set: "identity ` set (mark_no_longer_discovered devs) = identity ` set devs"
  by (auto simp: mark_no_longer_discovered_def image_iff)

lemma adapter_on_marked:
  assumes all: "\<forall>d\<in>set xs. discovery_status d = NO_LONGER_DISCOVERED"
    and d: "d \<in> set (snd (enumerator_adapter present setup_ok xs))"
  shows "(discovery_status d = NO_LONGER_DISCOVERED \<longleftrightarrow> identity d \<in> identity ` set xs \<and> identity d \<notin> set present)
       \<and> (discovery_status d = STILL_PRESENT \<longleftrightarrow> identity d \<in> identity ` set xs \<and> identity d \<in> set present)
       \<and> (discovery_status d = NEWLY_DISCOVERED \<longleftrightarrow> identity d \<notin> identity ` set xs \<and> identity d \<in> set present)"
  using d all by (auto simp: enumerator_adapter_def)

lemma refresh_loop_eq:
  "refresh_loop ctxs s =
     (map (\<lambda>c. fst (windows_refresh_device_list c)) ctxs,
      emit (concat (map (\<lambda>c. snd (windows_refresh_device_list c)) ctxs)) s)"
proof (induction ctxs arbitrary: s)
  case Nil
  then show ?case by (simp add: emit_def)
next
  case (Cons c cs)
  then show ?case by (simp add: emit_def split: prod.splits)
qed

lemma refresh_events_no_lock:
  "Mutex_lock \<notin> set (snd (windows_refresh_device_list c)) \<and> Mutex_unlock \<notin> set (snd (windows_refresh_device_list c))"
proof -
  obtain ret ctx1 evs0 where g: "windows_get_device_list c = (ret, ctx1, evs0)"
    by (metis prod_cases3)
  show ?thesis
  proof (cases "ret = LIBUSB_SUCCESS")
    case True
    with g have "windows_get_device_list c = (LIBUSB_SUCCESS, ctx1, evs0)" by simp
    from refresh_success [OF this] show ?thesis
      by (auto simp: removal_event_def arrival_event_def)
  next
    case False
    from refresh_failure [OF g False] show ?thesis by simp
  qed
qed

lemma refresh_events_enumeration:
  "filter is_enumeration (snd (windows_refresh_device_list c)) = [Get_device_list (ctx_id c)]"
proof -
  obtain ret ctx1 evs0 where g: "windows_get_device_list c = (ret, ctx1, evs0)"
    by (metis prod_cases3)
  have no: "filter is_enumeration (map (removal_event k) xs) = []"
       "filter is_enumeration (map (arrival_event k) xs) = []" for k xs
    by (induction xs) (auto simp: removal_event_def arrival_event_def)
  show ?thesis
  proof (cases "ret = LIBUSB_SUCCESS")
    case True
    with g have "windows_get_device_list c = (LIBUSB_SUCCESS, ctx1, evs0)" by simp
    from refresh_success [OF this] show ?thesis
      by (simp add: no)
  next
    case False
    from refresh_failure [OF g False] show ?thesis by simp
  qed
qed

lemma filter_concat_enumeration:
  "filter is_enumeration (concat (map (\<lambda>c. snd (windows_refresh_device_list c)) ctxs))
     = map (\<lambda>c. Get_device_list (ctx_id c)) ctxs"
  by (induction ctxs) (simp_all add: refresh_events_enumeration)

section \<open>Start, thread and stop\<close>

lemma stop_null:
  "windows_event_hWnd s = None \<Longrightarrow> windows_stop_event_monitor env s = (Some LIBUSB_SUCCESS, s)"
  by (simp add: windows_stop_event_monitor_def)

lemma os_CreateWindow_fails:
  assumes "CreateWindow_handle env = None \<or> RegisterDeviceNotification_result env = None"
  shows "fst (os_CreateWindow env s) = None
       \<and> windows_event_hWnd (snd (os_CreateWindow env s)) = windows_event_hWnd s
       \<and> windows_event_thread_handle (snd (os_CreateWindow env s)) = windows_event_thread_handle s
       \<and> (\<exists>evs. trace (snd (os_CreateWindow env s)) = trace s @ evs \<and> Os_call GetMessage \<notin> set evs)"
  using assms
  by (auto simp: os_CreateWindow_def register_device_interface_to_window_handle_def
        emit_def log_error_def Let_def split: option.splits)

lemma thread_main_subscription_fails:
  assumes f: "subscription_fails env"
  shows "fst (windows_event_thread_main env script s) = Some (- 1)
       \<and> windows_event_hWnd (snd (windows_event_thread_main env script s))
           = (if RegisterClass_ok env then None else windows_event_hWnd s)
       \<and> windows_event_thread_handle (snd (windows_event_thread_main env script s))
           = windows_event_thread_handle s
       \<and> (\<exists>evs. trace (snd (windows_event_thread_main env script s)) = trace s @ evs
              \<and> Os_call GetMessage \<notin> set evs)"
proof (cases "RegisterClass_ok env")
  case False
  then show ?thesis
    by (simp add: windows_event_thread_main_def init_wnd_class_def emit_def log_error_def)
next
  case True
  with f have c: "CreateWindow_handle env = None \<or> RegisterDeviceNotification_result env = None"
    by (simp add: subscription_fails_def)
  define s1 where "s1 = emit [Os_call RegisterClass] (emit [Usbi_dbg ''windows event thread entering''] s)"
  from os_CreateWindow_fails [OF c, of s1]
  obtain evs where cw: "fst (os_CreateWindow env s1) = None"
      "windows_event_thread_handle (snd (os_CreateWindow env s1)) = windows_event_thread_handle s1"
      "trace (snd (os_CreateWindow env s1)) = trace s1 @ evs" "Os_call GetMessage \<notin> set evs"
    by blast
  obtain h s2 where o: "os_CreateWindow env s1 = (h, s2)" by (cases "os_CreateWindow env s1")
  with cw have h: "h = None" and th: "windows_event_thread_handle s2 = windows_event_thread_handle s1"
    and tr: "trace s2 = trace s1 @ evs" by simp_all
  have m: "windows_event_thread_main env script s
            = (Some (- 1), log_error ''CreateWindow'' (s2\<lparr>windows_event_hWnd := None\<rparr>))"
    using True o h
    by (simp add: windows_event_thread_main_def init_wnd_class_def s1_def)
  have "trace (log_error ''CreateWindow'' (s2\<lparr>windows_event_hWnd := None\<rparr>))
          = trace s @ ([Usbi_dbg ''windows event thread entering'', Os_call RegisterClass] @ evs
                        @ [Log_error ''CreateWindow''])"
    by (simp add: log_error_def emit_def tr s1_def)
  moreover have "Os_call GetMessage \<notin> set ([Usbi_dbg ''windows event thread entering'', Os_call RegisterClass] @ evs
                        @ [Log_error ''CreateWindow''])"
    using cw(4) by simp
  ultimately have "\<exists>evs'. trace (log_error ''CreateWindow'' (s2\<lparr>windows_event_hWnd := None\<rparr>)) = trace s @ evs'
        \<and> Os_call GetMessage \<notin> set evs'" by blast
  then show ?thesis
    using True th by (simp add: m log_error_def emit_def s1_def)
qed

lemma events_since_append: "trace s' = trace s @ evs \<Longrightarrow> events_since s s' = evs"
  by (simp add: events_since_def)

lemma start_result:
  "fst (windows_start_event_monitor env s)
     = (if CreateThread_result env = None then LIBUSB_ERROR_OTHER else LIBUSB_SUCCESS)
   \<and> windows_event_hWnd (snd (windows_start_event_monitor env s)) = windows_event_hWnd s
   \<and> windows_event_thread_handle (snd (windows_start_event_monitor env s)) = CreateThread_result env"
  by (simp add: windows_start_event_monitor_def Let_def emit_def log_error_def)

lemma succeeded_zero: "SUCCEEDED 0"
  by (simp add: SUCCEEDED_def)

lemma send_close:
  "os_SendMessage env hWnd WM_CLOSE s =
     (0, emit ([Os_call (SendMessage hWnd WM_CLOSE),
                Os_call (UnregisterDeviceNotification (device_notify_handle s))]
               @ (if \<not> UnregisterDeviceNotification_ok env
                  then [Log_error ''UnregisterDeviceNotification''] else [])
               @ [Os_call (DestroyWindow hWnd)]
               @ (if \<not> DestroyWindow_ok env then [Log_error ''DestroyWindow''] else [])) s)"
  by (simp add: os_SendMessage_def Let_def emit_def log_error_def)

lemma stop_with_window:
  assumes "windows_event_hWnd s = Some hWnd"
  shows "fst (windows_stop_event_monitor env s)
           = (case WaitForSingleObject_result env of
                None \<Rightarrow> None
              | Some w \<Rightarrow>
                  Some (if w \<noteq> WAIT_OBJECT_0 \<or> \<not> CloseHandle_ok env
                        then LIBUSB_ERROR_OTHER else LIBUSB_SUCCESS))"
    and "events_since s (snd (windows_stop_event_monitor env s))
           = [Os_call (SendMessage hWnd WM_CLOSE),
              Os_call (UnregisterDeviceNotification (device_notify_handle s))]
             @ (if \<not> UnregisterDeviceNotification_ok env
                then [Log_error ''UnregisterDeviceNotification''] else [])
             @ [Os_call (DestroyWindow hWnd)]
             @ (if \<not> DestroyWindow_ok env then [Log_error ''DestroyWindow''] else [])
             @ [Os_call (WaitForSingleObject (windows_event_thread_handle s))]
             @ (case WaitForSingleObject_result env of
                  None \<Rightarrow> []
                | Some w \<Rightarrow>
                    (if w \<noteq> WAIT_OBJECT_0 then [Log_error ''WaitForSingleObject''] else [])
                    @ [Os_call (CloseHandle (windows_event_thread_handle s))]
                    @ (if \<not> CloseHandle_ok env then [Log_error ''WaitForSingleObject''] else []))"
    and "windows_event_hWnd (snd (windows_stop_event_monitor env s)) = Some hWnd"
    and "windows_event_thread_handle (snd (windows_stop_event_monitor env s))
           = windows_event_thread_handle s"
  using assms
  by (simp_all add: windows_stop_event_monitor_def send_close succeeded_zero Let_def emit_def
        log_error_def events_since_def split: option.splits)

section \<open>The concrete runs\<close>

lemmas fixture_defs = dev_A_def dev_B_def dev_U_def example_ctx_def failing_ctx_def
  enumerator_adapter_def enumeration_failure_def mark_no_longer_discovered_def
  LIBUSB_SUCCESS_def LIBUSB_ERROR_OTHER_def

lemma example_get_device_list:
  "windows_get_device_list example_ctx =
     (LIBUSB_SUCCESS,
      example_ctx\<lparr>usb_devs :=
        [\<lparr>identity = 1, discovery_status = STILL_PRESENT, initialized = True\<rparr>,
         \<lparr>identity = 2, discovery_status = NO_LONGER_DISCOVERED, initialized = True\<rparr>,
         \<lparr>identity = 3, discovery_status = NO_LONGER_DISCOVERED, initialized = False\<rparr>,
         \<lparr>identity = 4, discovery_status = NEWLY_DISCOVERED, initialized = True\<rparr>]\<rparr>,
      [Get_device_list 0])"
  by (simp add: windows_get_device_list_def fixture_defs)

lemma example_refresh:
  "windows_refresh_device_list example_ctx =
     (example_ctx\<lparr>usb_devs :=
        [\<lparr>identity = 1, discovery_status = STILL_PRESENT, initialized = True\<rparr>,
         \<lparr>identity = 4, discovery_status = NEWLY_DISCOVERED, initialized = True\<rparr>]\<rparr>,
      [Get_device_list 0,
       Disconnect_device 0 \<lparr>identity = 2, discovery_status = NO_LONGER_DISCOVERED, initialized = True\<rparr>,
       Detach_device 0 \<lparr>identity = 3, discovery_status = NO_LONGER_DISCOVERED, initialized = False\<rparr>,
       Hotplug_notification 0 \<lparr>identity = 4, discovery_status = NEWLY_DISCOVERED, initialized = True\<rparr> DEVICE_ARRIVED])"
  by (simp add: windows_refresh_device_list_def example_get_device_list
        usbi_disconnect_device_def usbi_detach_device_def usbi_hotplug_notification_def)
     (simp add: fixture_defs)

lemma failing_get_device_list:
  "windows_get_device_list failing_ctx =
     (LIBUSB_ERROR_OTHER,
      failing_ctx\<lparr>usb_devs :=
        [\<lparr>identity = 1, discovery_status = NO_LONGER_DISCOVERED, initialized = True\<rparr>,
         \<lparr>identity = 2, discovery_status = NO_LONGER_DISCOVERED, initialized = True\<rparr>]\<rparr>,
      [Get_device_list 1])"
  by (simp add: windows_get_device_list_def fixture_defs)

lemma monitor_running_eq:
  "monitor_running =
     \<lparr>windows_event_hWnd = Some 22, windows_event_thread_handle = Some 11,
      device_notify_handle = Some 33, active_contexts = [],
      trace = [Os_call CreateThread, Usbi_dbg ''windows event thread entering'',
               Os_call RegisterClass, Os_call CreateWindow, Os_call (RegisterDeviceNotification 22),
               Os_call GetMessage]\<rparr>"
  by (simp add: monitor_running_def windows_event_thread_main_def windows_start_event_monitor_def
        never_started_def os_healthy_def init_wnd_class_def os_CreateWindow_def
        register_device_interface_to_window_handle_def emit_def log_error_def Let_def)

lemma example_enumerated_devs:
  "usb_devs example_enumerated =
        [\<lparr>identity = 1, discovery_status = STILL_PRESENT, initialized = True\<rparr>,
         \<lparr>identity = 2, discovery_status = NO_LONGER_DISCOVERED, initialized = True\<rparr>,
         \<lparr>identity = 3, discovery_status = NO_LONGER_DISCOVERED, initialized = False\<rparr>,
         \<lparr>identity = 4, discovery_status = NEWLY_DISCOVERED, initialized = True\<rparr>]"
  by (simp add: example_enumerated_def example_get_device_list)

lemma example_enumerated_call:
  "windows_get_device_list example_ctx = (LIBUSB_SUCCESS, example_enumerated, [Get_device_list 0])"
  by (simp add: example_enumerated_def example_get_device_list)

section \<open>The claims\<close>

text \<open>
  Claim C1, as the code has it. When the subscription fails at thread start, the thread
  returns \<^verbatim>\<open>(DWORD)-1\<close> without ever calling \<^verbatim>\<open>GetMessage\<close>, and the window handle, null
  before the start, is null afterwards. \<^verbatim>\<open>windows_start_event_monitor\<close> does not wait for the
  thread: its result is decided by \<^verbatim>\<open>CreateThread\<close> alone, \<^verbatim>\<open>LIBUSB_ERROR_OTHER\<close> when no
  thread was created and \<^verbatim>\<open>LIBUSB_SUCCESS\<close> otherwise. A stop after the thread has exited
  returns \<^verbatim>\<open>LIBUSB_SUCCESS\<close> and leaves the state as it is.
\<close>

theorem subscription_failure_not_observed_by_start:
  assumes f: "subscription_fails env"
    and n: "windows_event_hWnd s = None"
    and s1: "s1 = snd (windows_start_event_monitor env s)"
    and s2: "s2 = snd (windows_event_thread_main env script s1)"
  shows "fst (windows_start_event_monitor env s)
           = (if CreateThread_result env = None then LIBUSB_ERROR_OTHER else LIBUSB_SUCCESS)
       \<and> fst (windows_event_thread_main env script s1) = Some (- 1)
       \<and> Os_call GetMessage \<notin> set (events_since s1 s2)
       \<and> windows_event_hWnd s2 = None
       \<and> windows_stop_event_monitor env' s2 = (Some LIBUSB_SUCCESS, s2)"
proof -
  have h1: "windows_event_hWnd s1 = None"
    using start_result [of env s] n s1 by simp
  from thread_main_subscription_fails [OF f, of script s1]
  obtain evs where t: "fst (windows_event_thread_main env script s1) = Some (- 1)"
    "windows_event_hWnd s2 = (if RegisterClass_ok env then None else windows_event_hWnd s1)"
    "trace s2 = trace s1 @ evs" "Os_call GetMessage \<notin> set evs"
    unfolding s2 by blast
  have h2: "windows_event_hWnd s2 = None"
    using t(2) h1 by simp
  have e: "Os_call GetMessage \<notin> set (events_since s1 s2)"
    using events_since_append [OF t(3)] t(4) by simp
  from start_result [of env s] t(1) e h2 stop_null [OF h2] show ?thesis by blast
qed

text \<open>
  The run in which the window class cannot be registered.
\<close>

theorem subscription_failure_not_observed_by_start_witness:
  "subscription_fails os_no_window_class
   \<and> windows_event_hWnd (never_started []) = None
   \<and> fst (windows_start_event_monitor os_no_window_class (never_started [])) = LIBUSB_SUCCESS
   \<and> fst (windows_event_thread_main os_no_window_class []
            (snd (windows_start_event_monitor os_no_window_class (never_started [])))) = Some (- 1)
   \<and> fst (windows_stop_event_monitor os_healthy
            (snd (windows_event_thread_main os_no_window_class []
                    (snd (windows_start_event_monitor os_no_window_class (never_started []))))))
       = Some LIBUSB_SUCCESS"
proof -
  have h: "subscription_fails os_no_window_class" "windows_event_hWnd (never_started []) = None"
    by (simp_all add: subscription_fails_def os_no_window_class_def never_started_def)
  have c: "CreateThread_result os_no_window_class \<noteq> None"
    by (simp add: os_no_window_class_def os_healthy_def)
  from subscription_failure_not_observed_by_start [where script = "[]" and env' = os_healthy, OF h refl refl] h c
  show ?thesis by simp
qed

text \<open>
  Claim C1 as stated does not hold: the window class cannot be registered, the thread exits
  with \<^verbatim>\<open>(DWORD)-1\<close>, and the start has returned \<^verbatim>\<open>LIBUSB_SUCCESS\<close>, not
  \<^verbatim>\<open>LIBUSB_ERROR_OTHER\<close>.
\<close>

theorem start_succeeds_despite_subscription_failure:
  "subscription_fails os_no_window_class
   \<and> fst (windows_event_thread_main os_no_window_class []
            (snd (windows_start_event_monitor os_no_window_class (never_started [])))) = Some (- 1)
   \<and> fst (windows_start_event_monitor os_no_window_class (never_started [])) = LIBUSB_SUCCESS
   \<and> fst (windows_start_event_monitor os_no_window_class (never_started [])) \<noteq> LIBUSB_ERROR_OTHER"
  by (simp add: subscription_fails_def os_no_window_class_def os_healthy_def
        windows_event_thread_main_def windows_start_event_monitor_def never_started_def
        init_wnd_class_def emit_def log_error_def Let_def LIBUSB_SUCCESS_def LIBUSB_ERROR_OTHER_def)

text \<open>
  Claim C2. In the events of one reconciliation pass of one context, every removal (a
  disconnect or a silent detach) stands before every arrival notification: whenever position
  \<open>i\<close> holds a removal and position \<open>j\<close> an arrival, \<open>i < j\<close>.
\<close>

theorem removals_before_arrivals:
  assumes "windows_refresh_device_list ctx = (ctx', evs)"
    and "i < length evs" and "is_removal (evs ! i)"
    and "j < length evs" and "is_arrival (evs ! j)"
  shows "i < j"
proof -
  obtain ret ctx1 evs0 where g: "windows_get_device_list ctx = (ret, ctx1, evs0)"
    by (metis prod_cases3)
  show ?thesis
  proof (cases "ret = LIBUSB_SUCCESS")
    case True
    with g have g': "windows_get_device_list ctx = (LIBUSB_SUCCESS, ctx1, evs0)" by simp
    have ev: "evs = [Get_device_list (ctx_id ctx)]
      @ map (removal_event (ctx_id ctx)) (filter (\<lambda>d. discovery_status d = NO_LONGER_DISCOVERED) (usb_devs ctx1))
      @ map (arrival_event (ctx_id ctx)) (filter (\<lambda>d. discovery_status d = NEWLY_DISCOVERED) (usb_devs ctx1))"
      using assms(1) unfolding refresh_success [OF g'] by simp
    show ?thesis
      by (rule nth_append3_order [OF ev _ _ _ assms(2,3,4,5)])
         (auto simp: removal_event_kind arrival_event_kind)
  next
    case False
    have ev: "evs = [Get_device_list (ctx_id ctx), Usbi_err (ctx_id ctx) ret] @ [] @ []"
      using assms(1) unfolding refresh_failure [OF g False] by simp
    show ?thesis
      by (rule nth_append3_order [OF ev _ _ _ assms(2,3,4,5)]) auto
  qed
qed

text \<open>
  In the pass over the example context the disconnect is event 1 and the arrival event 3.
\<close>

theorem removals_before_arrivals_witness:
  "(1::nat) < length (snd (windows_refresh_device_list example_ctx))
   \<and> is_removal (snd (windows_refresh_device_list example_ctx) ! 1)
   \<and> (3::nat) < length (snd (windows_refresh_device_list example_ctx))
   \<and> is_arrival (snd (windows_refresh_device_list example_ctx) ! 3)
   \<and> (1::nat) < 3"
proof -
  have h: "(1::nat) < length (snd (windows_refresh_device_list example_ctx))"
    "is_removal (snd (windows_refresh_device_list example_ctx) ! 1)"
    "(3::nat) < length (snd (windows_refresh_device_list example_ctx))"
    "is_arrival (snd (windows_refresh_device_list example_ctx) ! 3)"
    by (simp_all add: example_refresh)
  from removals_before_arrivals [OF refresh_collapse h] h show ?thesis by simp
qed

text \<open>
  Claim C3. Let the enumeration of a pass succeed and let \<open>dev\<close> be a node of the list it
  leaves, tagged \<^verbatim>\<open>NO_LONGER_DISCOVERED\<close>; the nodes of a list are distinct. If \<open>dev\<close> is
  initialized, the pass holds exactly one disconnect of \<open>dev\<close> and no detach; if it is not, exactly
  one detach and no disconnect; the events carry the id of this context and of no other. In both
  cases \<open>dev\<close> is no longer in the list of the context after the pass.
\<close>

theorem no_longer_discovered_removed_once:
  assumes g: "windows_get_device_list ctx = (LIBUSB_SUCCESS, ctx1, evs0)"
    and d: "distinct (usb_devs ctx1)"
    and m: "dev \<in> set (usb_devs ctx1)"
    and st: "discovery_status dev = NO_LONGER_DISCOVERED"
    and r: "windows_refresh_device_list ctx = (ctx', evs)"
  shows "count_list evs (Disconnect_device c dev) = (if initialized dev \<and> c = ctx_id ctx then 1 else 0)
       \<and> count_list evs (Detach_device c dev) = (if \<not> initialized dev \<and> c = ctx_id ctx then 1 else 0)
       \<and> dev \<notin> set (usb_devs ctx')"
proof -
  have ev: "evs = [Get_device_list (ctx_id ctx)]
      @ map (removal_event (ctx_id ctx)) (filter (\<lambda>d. discovery_status d = NO_LONGER_DISCOVERED) (usb_devs ctx1))
      @ map (arrival_event (ctx_id ctx)) (filter (\<lambda>d. discovery_status d = NEWLY_DISCOVERED) (usb_devs ctx1))"
    and c': "ctx' = ctx1\<lparr>usb_devs := filter (\<lambda>d. discovery_status d \<noteq> NO_LONGER_DISCOVERED) (usb_devs ctx1)\<rparr>"
    using r unfolding refresh_success [OF g] by simp_all
  have one: "count_list (usb_devs ctx1) dev = 1"
    using d m by (rule count_list_distinct)
  have "count_list evs (Disconnect_device c dev) = (if initialized dev \<and> c = ctx_id ctx then 1 else 0)"
    by (simp add: ev count_list_map_removal_disconnect count_list_map_arrival_removal count_list_filter st one)
  moreover have "count_list evs (Detach_device c dev) = (if \<not> initialized dev \<and> c = ctx_id ctx then 1 else 0)"
    by (simp add: ev count_list_map_removal_detach count_list_map_arrival_removal count_list_filter st one)
  moreover have "dev \<notin> set (usb_devs ctx')"
    by (simp add: c' st)
  ultimately show ?thesis by blast
qed

text \<open>
  Device 2 of the example context was set up and has gone: one disconnect, no detach.
\<close>

theorem no_longer_discovered_removed_once_witness:
  "windows_get_device_list example_ctx = (LIBUSB_SUCCESS, example_enumerated, [Get_device_list 0])
   \<and> distinct (usb_devs example_enumerated)
   \<and> dev_B_gone \<in> set (usb_devs example_enumerated)
   \<and> discovery_status dev_B_gone = NO_LONGER_DISCOVERED
   \<and> count_list (snd (windows_refresh_device_list example_ctx)) (Disconnect_device 0 dev_B_gone) = 1
   \<and> count_list (snd (windows_refresh_device_list example_ctx)) (Detach_device 0 dev_B_gone) = 0
   \<and> dev_B_gone \<notin> set (usb_devs (fst (windows_refresh_device_list example_ctx)))"
proof -
  have h: "distinct (usb_devs example_enumerated)"
    "dev_B_gone \<in> set (usb_devs example_enumerated)"
    "discovery_status dev_B_gone = NO_LONGER_DISCOVERED"
    by (simp_all add: example_enumerated_devs dev_B_gone_def)
  have i: "initialized dev_B_gone" "ctx_id example_ctx = 0"
    by (simp_all add: dev_B_gone_def example_ctx_def)
  from no_longer_discovered_removed_once [OF example_enumerated_call h refresh_collapse, of 0]
    example_enumerated_call h i
  show ?thesis by simp
qed

text \<open>
  Claim C4. When the enumerator returns anything but \<^verbatim>\<open>LIBUSB_SUCCESS\<close>, the pass logs the
  code and ends there. Its only events are the call of the enumerator and the log line: no
  disconnect, no detach, no arrival. The context is exactly as the enumeration left it, with the
  tags \<^verbatim>\<open>windows_get_device_list\<close> wrote; when the enumerator itself has not touched the list,
  the same devices are in it, in the same order, as before the pass.
\<close>

theorem enumeration_failure_abandons_refresh:
  assumes g: "windows_get_device_list ctx = (ret, ctx1, evs0)"
    and f: "ret \<noteq> LIBUSB_SUCCESS"
  shows "windows_refresh_device_list ctx
           = (ctx1, [Get_device_list (ctx_id ctx), Usbi_err (ctx_id ctx) ret])
       \<and> usb_devs ctx1 = snd (backend_get_device_list ctx (mark_no_longer_discovered (usb_devs ctx)))
       \<and> (\<forall>e\<in>set (snd (windows_refresh_device_list ctx)). \<not> is_removal e \<and> \<not> is_arrival e)
       \<and> (usb_devs ctx1 = mark_no_longer_discovered (usb_devs ctx) \<longrightarrow>
            map identity (usb_devs (fst (windows_refresh_device_list ctx))) = map identity (usb_devs ctx)
          \<and> map initialized (usb_devs (fst (windows_refresh_device_list ctx))) = map initialized (usb_devs ctx))"
proof -
  have r: "windows_refresh_device_list ctx
           = (ctx1, [Get_device_list (ctx_id ctx), Usbi_err (ctx_id ctx) ret])"
    by (rule refresh_failure [OF g f])
  have call: "usb_devs ctx1 = snd (backend_get_device_list ctx (mark_no_longer_discovered (usb_devs ctx)))"
    using g by (auto simp: windows_get_device_list_def split: prod.splits)
  have quiet: "\<forall>e\<in>set (snd (windows_refresh_device_list ctx)). \<not> is_removal e \<and> \<not> is_arrival e"
    by (simp add: r)
  have same: "map identity (usb_devs (fst (windows_refresh_device_list ctx))) = map identity (usb_devs ctx)
          \<and> map initialized (usb_devs (fst (windows_refresh_device_list ctx))) = map initialized (usb_devs ctx)"
    if "usb_devs ctx1 = mark_no_longer_discovered (usb_devs ctx)"
    using that by (simp add: r mark_props)
  from r call quiet same show ?thesis by blast
qed

text \<open>
  The context whose enumerator fails keeps its two devices.
\<close>

theorem enumeration_failure_abandons_refresh_witness:
  "windows_get_device_list failing_ctx
     = (LIBUSB_ERROR_OTHER, fst (snd (windows_get_device_list failing_ctx)), [Get_device_list 1])
   \<and> LIBUSB_ERROR_OTHER \<noteq> LIBUSB_SUCCESS
   \<and> windows_refresh_device_list failing_ctx
       = (fst (snd (windows_get_device_list failing_ctx)), [Get_device_list 1, Usbi_err 1 LIBUSB_ERROR_OTHER])
   \<and> usb_devs (fst (snd (windows_get_device_list failing_ctx)))
       = mark_no_longer_discovered (usb_devs failing_ctx)
   \<and> map identity (usb_devs (fst (windows_refresh_device_list failing_ctx))) = [1, 2]"
proof -
  have g: "windows_get_device_list failing_ctx
     = (LIBUSB_ERROR_OTHER, fst (snd (windows_get_device_list failing_ctx)), [Get_device_list 1])"
    by (simp add: failing_get_device_list)
  have f: "LIBUSB_ERROR_OTHER \<noteq> LIBUSB_SUCCESS"
    by (simp add: LIBUSB_ERROR_OTHER_def LIBUSB_SUCCESS_def)
  have k: "usb_devs (fst (snd (windows_get_device_list failing_ctx)))
       = mark_no_longer_discovered (usb_devs failing_ctx)"
    by (simp add: failing_get_device_list) (simp add: fixture_defs)
  have c: "ctx_id failing_ctx = 1" "map identity (usb_devs failing_ctx) = [1, 2]"
    by (simp_all add: failing_ctx_def dev_A_def dev_B_def)
  from enumeration_failure_abandons_refresh [OF g f] g f k c show ?thesis
    by (simp add: mark_props)
qed

text \<open>
  Claim C5. \<^verbatim>\<open>windows_refresh_device_list_for_all_ctx\<close> adds to the record one lock, then
  the events of the pass of each active context in the order of the registry, then one unlock;
  nothing in between locks or unlocks. The enumerator is called once per context, in that
  order. Each context ends as its own pass leaves it, whatever the enumerators of the other
  contexts returned.
\<close>

theorem refresh_all_once_per_context:
  "trace (windows_refresh_device_list_for_all_ctx s)
      = trace s @ [Mutex_lock]
        @ concat (map (\<lambda>c. snd (windows_refresh_device_list c)) (active_contexts s))
        @ [Mutex_unlock]
   \<and> Mutex_lock \<notin> set (concat (map (\<lambda>c. snd (windows_refresh_device_list c)) (active_contexts s)))
   \<and> Mutex_unlock \<notin> set (concat (map (\<lambda>c. snd (windows_refresh_device_list c)) (active_contexts s)))
   \<and> filter is_enumeration (concat (map (\<lambda>c. snd (windows_refresh_device_list c)) (active_contexts s)))
      = map (\<lambda>c. Get_device_list (ctx_id c)) (active_contexts s)
   \<and> active_contexts (windows_refresh_device_list_for_all_ctx s)
      = map (\<lambda>c. fst (windows_refresh_device_list c)) (active_contexts s)"
proof -
  have t: "trace (windows_refresh_device_list_for_all_ctx s)
      = trace s @ [Mutex_lock]
        @ concat (map (\<lambda>c. snd (windows_refresh_device_list c)) (active_contexts s))
        @ [Mutex_unlock]"
    by (simp add: windows_refresh_device_list_for_all_ctx_def refresh_loop_eq emit_def)
  have a: "active_contexts (windows_refresh_device_list_for_all_ctx s)
      = map (\<lambda>c. fst (windows_refresh_device_list c)) (active_contexts s)"
    by (simp add: windows_refresh_device_list_for_all_ctx_def refresh_loop_eq emit_def)
  have l: "Mutex_lock \<notin> set (concat (map (\<lambda>c. snd (windows_refresh_device_list c)) (active_contexts s)))"
    using refresh_events_no_lock by auto
  have u: "Mutex_unlock \<notin> set (concat (map (\<lambda>c. snd (windows_refresh_device_list c)) (active_contexts s)))"
    using refresh_events_no_lock by auto
  from t a l u filter_concat_enumeration show ?thesis by blast
qed

text \<open>
  Two contexts, the first with a failing enumerator: the second is reconciled all the same.
\<close>

theorem refresh_all_once_per_context_witness:
  "active_contexts (windows_refresh_device_list_for_all_ctx (never_started [failing_ctx, example_ctx]))
     = [fst (windows_refresh_device_list failing_ctx), fst (windows_refresh_device_list example_ctx)]
   \<and> trace (windows_refresh_device_list_for_all_ctx (never_started [failing_ctx, example_ctx]))
     = [Mutex_lock, Get_device_list 1, Usbi_err 1 LIBUSB_ERROR_OTHER, Get_device_list 0,
        Disconnect_device 0 \<lparr>identity = 2, discovery_status = NO_LONGER_DISCOVERED, initialized = True\<rparr>,
        Detach_device 0 \<lparr>identity = 3, discovery_status = NO_LONGER_DISCOVERED, initialized = False\<rparr>,
        Hotplug_notification 0 \<lparr>identity = 4, discovery_status = NEWLY_DISCOVERED, initialized = True\<rparr> DEVICE_ARRIVED,
        Mutex_unlock]"
proof -
  have f: "snd (windows_refresh_device_list failing_ctx) = [Get_device_list 1, Usbi_err 1 LIBUSB_ERROR_OTHER]"
    by (simp add: windows_refresh_device_list_def failing_get_device_list)
       (simp add: fixture_defs)
  from refresh_all_once_per_context [of "never_started [failing_ctx, example_ctx]"]
  show ?thesis by (simp add: never_started_def f example_refresh)
qed

text \<open>
  Claim C6. \<^verbatim>\<open>windows_get_device_list\<close> hands the enumerator the list of the context with
  every entry tagged \<^verbatim>\<open>NO_LONGER_DISCOVERED\<close>, the same devices in the same order. So an
  entry that carries another tag after enumeration is not one of the entries handed over: the
  enumerator wrote it during this pass. With the enumerator the spec describes, whatever the tags
  were before the pass: an entry is still tagged \<^verbatim>\<open>NO_LONGER_DISCOVERED\<close> exactly when the
  device was known and is absent from the bus, \<^verbatim>\<open>STILL_PRESENT\<close> exactly when it was known
  and is present, \<^verbatim>\<open>NEWLY_DISCOVERED\<close> exactly when it was not known and is present.
\<close>

theorem marked_before_enumeration:
  assumes g: "windows_get_device_list ctx = (ret, ctx1, evs0)"
  shows "(ret, usb_devs ctx1) = backend_get_device_list ctx (mark_no_longer_discovered (usb_devs ctx))
       \<and> map identity (mark_no_longer_discovered (usb_devs ctx)) = map identity (usb_devs ctx)
       \<and> map initialized (mark_no_longer_discovered (usb_devs ctx)) = map initialized (usb_devs ctx)
       \<and> (\<forall>d\<in>set (mark_no_longer_discovered (usb_devs ctx)). discovery_status d = NO_LONGER_DISCOVERED)
       \<and> (\<forall>d\<in>set (usb_devs ctx1). discovery_status d \<noteq> NO_LONGER_DISCOVERED
             \<longrightarrow> d \<notin> set (mark_no_longer_discovered (usb_devs ctx)))
       \<and> (backend_get_device_list ctx = enumerator_adapter present setup_ok \<longrightarrow>
            (\<forall>d\<in>set (usb_devs ctx1).
               (discovery_status d = NO_LONGER_DISCOVERED
                  \<longleftrightarrow> identity d \<in> identity ` set (usb_devs ctx) \<and> identity d \<notin> set present)
             \<and> (discovery_status d = STILL_PRESENT
                  \<longleftrightarrow> identity d \<in> identity ` set (usb_devs ctx) \<and> identity d \<in> set present)
             \<and> (discovery_status d = NEWLY_DISCOVERED
                  \<longleftrightarrow> identity d \<notin> identity ` set (usb_devs ctx) \<and> identity d \<in> set present)))"
proof -
  have call: "(ret, usb_devs ctx1) = backend_get_device_list ctx (mark_no_longer_discovered (usb_devs ctx))"
    using g by (auto simp: windows_get_device_list_def split: prod.splits)
  have fresh: "\<forall>d\<in>set (usb_devs ctx1). discovery_status d \<noteq> NO_LONGER_DISCOVERED
             \<longrightarrow> d \<notin> set (mark_no_longer_discovered (usb_devs ctx))"
    using mark_props(3) by blast
  have contract: "\<forall>d\<in>set (usb_devs ctx1).
               (discovery_status d = NO_LONGER_DISCOVERED
                  \<longleftrightarrow> identity d \<in> identity ` set (usb_devs ctx) \<and> identity d \<notin> set present)
             \<and> (discovery_status d = STILL_PRESENT
                  \<longleftrightarrow> identity d \<in> identity ` set (usb_devs ctx) \<and> identity d \<in> set present)
             \<and> (discovery_status d = NEWLY_DISCOVERED
                  \<longleftrightarrow> identity d \<notin> identity ` set (usb_devs ctx) \<and> identity d \<in> set present)"
    if b: "backend_get_device_list ctx = enumerator_adapter present setup_ok"
  proof
    fix d assume "d \<in> set (usb_devs ctx1)"
    then have "d \<in> set (snd (enumerator_adapter present setup_ok (mark_no_longer_discovered (usb_devs ctx))))"
      using call b by (metis snd_conv)
    from adapter_on_marked [OF mark_props(3) this]
    show "(discovery_status d = NO_LONGER_DISCOVERED
                  \<longleftrightarrow> identity d \<in> identity ` set (usb_devs ctx) \<and> identity d \<notin> set present)
             \<and> (discovery_status d = STILL_PRESENT
                  \<longleftrightarrow> identity d \<in> identity ` set (usb_devs ctx) \<and> identity d \<in> set present)
             \<and> (discovery_status d = NEWLY_DISCOVERED
                  \<longleftrightarrow> identity d \<notin> identity ` set (usb_devs ctx) \<and> identity d \<in> set present)"
      by (simp only: mark_identity_set)
  qed
  from call mark_props fresh contract show ?thesis by blast
qed

text \<open>
  In the example context device 2 is absent and stays marked; device 1 is present.
\<close>

theorem marked_before_enumeration_witness:
  "windows_get_device_list example_ctx = (LIBUSB_SUCCESS, example_enumerated, [Get_device_list 0])
   \<and> backend_get_device_list example_ctx = enumerator_adapter [1, 4] (\<lambda>p. True)
   \<and> dev_B_gone \<in> set (usb_devs example_enumerated)
   \<and> discovery_status dev_B_gone = NO_LONGER_DISCOVERED
   \<and> identity dev_B_gone \<in> identity ` set (usb_devs example_ctx)
   \<and> identity dev_B_gone \<notin> set [1, 4]
   \<and> dev_A_seen \<in> set (usb_devs example_enumerated)
   \<and> discovery_status dev_A_seen \<noteq> NO_LONGER_DISCOVERED
   \<and> dev_A_seen \<notin> set (mark_no_longer_discovered (usb_devs example_ctx))"
proof -
  have b: "backend_get_device_list example_ctx = enumerator_adapter [1, 4] (\<lambda>p. True)"
    by (simp add: example_ctx_def)
  have m: "dev_B_gone \<in> set (usb_devs example_enumerated)"
    "discovery_status dev_B_gone = NO_LONGER_DISCOVERED"
    "dev_A_seen \<in> set (usb_devs example_enumerated)"
    "discovery_status dev_A_seen \<noteq> NO_LONGER_DISCOVERED"
    by (simp_all add: example_enumerated_devs dev_B_gone_def dev_A_seen_def)
  from marked_before_enumeration [OF example_enumerated_call, of "[1, 4]" "\<lambda>p. True"] b m
  have "identity dev_B_gone \<in> identity ` set (usb_devs example_ctx) \<and> identity dev_B_gone \<notin> set [1, 4]"
    and "dev_A_seen \<notin> set (mark_no_longer_discovered (usb_devs example_ctx))"
    by blast+
  with example_enumerated_call b m show ?thesis by blast
qed



text \<open>
  Claim C8. When the window handle is null, as it is when the monitor was never started, the
  stop returns \<^verbatim>\<open>LIBUSB_SUCCESS\<close>, leaves the state as it is and records no event: no
  teardown, no signal, no join.
\<close>

theorem stop_never_started:
  assumes "windows_event_hWnd s = None"
  shows "windows_stop_event_monitor env s = (Some LIBUSB_SUCCESS, s)
       \<and> events_since s (snd (windows_stop_event_monitor env s)) = []"
  using assms by (simp add: windows_stop_event_monitor_def events_since_def)

text \<open>
  The stop in a process that never started the monitor.
\<close>

theorem stop_never_started_witness:
  "windows_event_hWnd (never_started []) = None
   \<and> windows_stop_event_monitor os_healthy (never_started []) = (Some LIBUSB_SUCCESS, never_started [])"
proof -
  have h: "windows_event_hWnd (never_started []) = None"
    by (simp add: never_started_def)
  from stop_never_started [OF h, of os_healthy] h show ?thesis by simp
qed

text \<open>
  Claim C9. Let the enumeration of a pass succeed and let \<open>dev\<close> be a node of the list it
  leaves, tagged \<^verbatim>\<open>STILL_PRESENT\<close>. The pass holds no disconnect, no detach and no
  notification of \<open>dev\<close>, for any context id, and \<open>dev\<close> is in the list of the context after
  the pass as often as before.
\<close>

theorem still_present_untouched:
  assumes g: "windows_get_device_list ctx = (LIBUSB_SUCCESS, ctx1, evs0)"
    and m: "dev \<in> set (usb_devs ctx1)"
    and st: "discovery_status dev = STILL_PRESENT"
    and r: "windows_refresh_device_list ctx = (ctx', evs)"
  shows "Disconnect_device c dev \<notin> set evs \<and> Detach_device c dev \<notin> set evs
       \<and> Hotplug_notification c dev ev \<notin> set evs
       \<and> dev \<in> set (usb_devs ctx')
       \<and> count_list (usb_devs ctx') dev = count_list (usb_devs ctx1) dev"
proof -
  have ev: "evs = [Get_device_list (ctx_id ctx)]
      @ map (removal_event (ctx_id ctx)) (filter (\<lambda>d. discovery_status d = NO_LONGER_DISCOVERED) (usb_devs ctx1))
      @ map (arrival_event (ctx_id ctx)) (filter (\<lambda>d. discovery_status d = NEWLY_DISCOVERED) (usb_devs ctx1))"
    and c': "ctx' = ctx1\<lparr>usb_devs := filter (\<lambda>d. discovery_status d \<noteq> NO_LONGER_DISCOVERED) (usb_devs ctx1)\<rparr>"
    using r unfolding refresh_success [OF g] by simp_all
  have "Disconnect_device c dev \<notin> set evs"
    using st by (auto simp: ev removal_event_def arrival_event_def)
  moreover have "Detach_device c dev \<notin> set evs"
    using st by (auto simp: ev removal_event_def arrival_event_def)
  moreover have "Hotplug_notification c dev ev \<notin> set evs"
    using st by (auto simp: ev removal_event_def arrival_event_def)
  moreover have "dev \<in> set (usb_devs ctx')"
    using m st by (simp add: c')
  moreover have "count_list (usb_devs ctx') dev = count_list (usb_devs ctx1) dev"
    using st by (simp add: c' count_list_filter)
  ultimately show ?thesis by blast
qed

text \<open>
  Device 1 of the example context is still attached.
\<close>

theorem still_present_untouched_witness:
  "windows_get_device_list example_ctx = (LIBUSB_SUCCESS, example_enumerated, [Get_device_list 0])
   \<and> dev_A_seen \<in> set (usb_devs example_enumerated)
   \<and> discovery_status dev_A_seen = STILL_PRESENT
   \<and> Disconnect_device 0 dev_A_seen \<notin> set (snd (windows_refresh_device_list example_ctx))
   \<and> Detach_device 0 dev_A_seen \<notin> set (snd (windows_refresh_device_list example_ctx))
   \<and> Hotplug_notification 0 dev_A_seen DEVICE_ARRIVED \<notin> set (snd (windows_refresh_device_list example_ctx))
   \<and> dev_A_seen \<in> set (usb_devs (fst (windows_refresh_device_list example_ctx)))"
proof -
  have h: "dev_A_seen \<in> set (usb_devs example_enumerated)"
    "discovery_status dev_A_seen = STILL_PRESENT"
    by (simp_all add: example_enumerated_devs dev_A_seen_def)
  from still_present_untouched [OF example_enumerated_call h refresh_collapse, of 0 DEVICE_ARRIVED]
    example_enumerated_call h
  show ?thesis by simp
qed

text \<open>
  Claim C10, as the code has it. The stop looks at the window handle only. Let the window
  handle be null before the start, no earlier run having left one: the handle is written when
  the thread creates its window and never cleared. After a start that created the thread, while
  the thread has not set the handle, the stop returns \<^verbatim>\<open>LIBUSB_SUCCESS\<close> and leaves the state
  as it is, the thread handle still open; the same once the thread has exited on a failed
  subscription. And with a window handle the stop signals the window, whatever the thread handle
  is.
\<close>

theorem stop_keyed_on_window_handle:
  assumes n: "windows_event_hWnd s = None"
    and c: "CreateThread_result env = Some th"
    and s1: "s1 = snd (windows_start_event_monitor env s)"
    and s2: "s2 = snd (windows_event_thread_main env script s1)"
  shows "fst (windows_start_event_monitor env s) = LIBUSB_SUCCESS
       \<and> windows_event_thread_handle s1 = Some th
       \<and> windows_stop_event_monitor env' s1 = (Some LIBUSB_SUCCESS, s1)
       \<and> (subscription_fails env \<longrightarrow>
            windows_event_thread_handle s2 = Some th
          \<and> windows_stop_event_monitor env' s2 = (Some LIBUSB_SUCCESS, s2))
       \<and> (windows_event_hWnd t = Some hWnd \<longrightarrow>
            take (Suc 0) (events_since t (snd (windows_stop_event_monitor env' t)))
              = [Os_call (SendMessage hWnd WM_CLOSE)])"
proof -
  have a: "fst (windows_start_event_monitor env s) = LIBUSB_SUCCESS"
       "windows_event_thread_handle s1 = Some th" "windows_event_hWnd s1 = None"
    using start_result [of env s] n c s1 by simp_all
  have b: "windows_event_thread_handle s2 = Some th
          \<and> windows_stop_event_monitor env' s2 = (Some LIBUSB_SUCCESS, s2)"
    if f: "subscription_fails env"
  proof -
    from thread_main_subscription_fails [OF f, of script s1]
    have "windows_event_hWnd s2 = None" "windows_event_thread_handle s2 = Some th"
      using a s2 by simp_all
    then show ?thesis by (simp add: stop_null)
  qed
  have k: "take (Suc 0) (events_since t (snd (windows_stop_event_monitor env' t)))
              = [Os_call (SendMessage hWnd WM_CLOSE)]"
    if "windows_event_hWnd t = Some hWnd"
    using stop_with_window(2) [OF that, of env'] by simp
  from a b k stop_null [OF a(3)] show ?thesis by blast
qed

text \<open>
  The thread was created and exited because the window class could not be registered; and a
  state with a window handle and no thread handle, in which the stop signals the window.
\<close>

theorem stop_keyed_on_window_handle_witness:
  "windows_event_hWnd (never_started []) = None
   \<and> CreateThread_result os_no_window_class = Some 11
   \<and> subscription_fails os_no_window_class
   \<and> windows_event_thread_handle
        (snd (windows_event_thread_main os_no_window_class []
               (snd (windows_start_event_monitor os_no_window_class (never_started []))))) = Some 11
   \<and> windows_stop_event_monitor os_healthy
        (snd (windows_event_thread_main os_no_window_class []
               (snd (windows_start_event_monitor os_no_window_class (never_started [])))))
       = (Some LIBUSB_SUCCESS,
          snd (windows_event_thread_main os_no_window_class []
               (snd (windows_start_event_monitor os_no_window_class (never_started [])))))
   \<and> windows_event_hWnd (monitor_running\<lparr>windows_event_thread_handle := None\<rparr>) = Some 22
   \<and> take (Suc 0)
        (events_since (monitor_running\<lparr>windows_event_thread_handle := None\<rparr>)
           (snd (windows_stop_event_monitor os_healthy
                  (monitor_running\<lparr>windows_event_thread_handle := None\<rparr>))))
       = [Os_call (SendMessage 22 WM_CLOSE)]"
proof -
  have h: "windows_event_hWnd (never_started []) = None"
    "CreateThread_result os_no_window_class = Some 11"
    by (simp_all add: never_started_def os_no_window_class_def os_healthy_def)
  have f: "subscription_fails os_no_window_class"
    by (simp add: subscription_fails_def os_no_window_class_def)
  have w: "windows_event_hWnd (monitor_running\<lparr>windows_event_thread_handle := None\<rparr>) = Some 22"
    by (simp add: monitor_running_eq)
  from stop_keyed_on_window_handle
         [where script = "[]" and env' = os_healthy
            and t = "monitor_running\<lparr>windows_event_thread_handle := None\<rparr>" and hWnd = 22,
          OF h refl refl] h f w
  show ?thesis by simp
qed

text \<open>
  Claim C10 as stated does not hold. The monitor ran and was stopped; the window handle of that
  run is still in place. The second start creates a thread, which cannot register the window
  class and exits with \<^verbatim>\<open>(DWORD)-1\<close> before it calls \<^verbatim>\<open>CreateWindow\<close>: it never set the
  window handle. The stop that follows signals the old window, joins and closes the thread
  handle.
\<close>

theorem stale_window_handle_is_signalled:
  "fst (windows_start_event_monitor os_no_window_class stopped_once) = LIBUSB_SUCCESS
   \<and> fst (windows_event_thread_main os_no_window_class [] restarted) = Some (- 1)
   \<and> events_since restarted restart_failed
       = [Usbi_dbg ''windows event thread entering'', Os_call RegisterClass,
          Log_error ''RegisterClassEx'']
   \<and> windows_event_hWnd restart_failed = Some 22
   \<and> windows_stop_event_monitor os_healthy restart_failed \<noteq> (Some LIBUSB_SUCCESS, restart_failed)
   \<and> events_since restart_failed (snd (windows_stop_event_monitor os_healthy restart_failed))
       = [Os_call (SendMessage 22 WM_CLOSE), Os_call (UnregisterDeviceNotification (Some 33)),
          Os_call (DestroyWindow 22), Os_call (WaitForSingleObject (Some 11)),
          Os_call (CloseHandle (Some 11))]"
proof -
  have so: "windows_event_hWnd stopped_once = Some 22"
    "windows_event_thread_handle stopped_once = Some 11"
    "device_notify_handle stopped_once = Some 33"
    by (simp_all add: stopped_once_def windows_stop_event_monitor_def send_close succeeded_zero
          monitor_running_eq os_healthy_def WAIT_OBJECT_0_def Let_def emit_def log_error_def)
  have st: "fst (windows_start_event_monitor os_no_window_class stopped_once) = LIBUSB_SUCCESS"
    by (simp add: windows_start_event_monitor_def os_no_window_class_def os_healthy_def
          Let_def emit_def log_error_def)
  have rs: "windows_event_hWnd restarted = Some 22"
    "windows_event_thread_handle restarted = Some 11"
    "device_notify_handle restarted = Some 33"
    using so
    by (simp_all add: restarted_def windows_start_event_monitor_def os_no_window_class_def
          os_healthy_def Let_def emit_def log_error_def)
  have tm: "windows_event_thread_main os_no_window_class [] restarted
      = (Some (- 1), emit [Usbi_dbg ''windows event thread entering'', Os_call RegisterClass,
                           Log_error ''RegisterClassEx''] restarted)"
    by (simp add: windows_event_thread_main_def init_wnd_class_def os_no_window_class_def
          os_healthy_def emit_def log_error_def)
  have rf: "windows_event_hWnd restart_failed = Some 22"
    "windows_event_thread_handle restart_failed = Some 11"
    "device_notify_handle restart_failed = Some 33"
    "events_since restarted restart_failed
       = [Usbi_dbg ''windows event thread entering'', Os_call RegisterClass,
          Log_error ''RegisterClassEx'']"
    using rs by (simp_all add: restart_failed_def tm emit_def events_since_def)
  have ev: "events_since restart_failed (snd (windows_stop_event_monitor os_healthy restart_failed))
       = [Os_call (SendMessage 22 WM_CLOSE), Os_call (UnregisterDeviceNotification (Some 33)),
          Os_call (DestroyWindow 22), Os_call (WaitForSingleObject (Some 11)),
          Os_call (CloseHandle (Some 11))]"
    using stop_with_window(2) [OF rf(1), of os_healthy] rf(2,3)
    by (simp add: os_healthy_def WAIT_OBJECT_0_def)
  have ne: "windows_stop_event_monitor os_healthy restart_failed \<noteq> (Some LIBUSB_SUCCESS, restart_failed)"
  proof
    assume "windows_stop_event_monitor os_healthy restart_failed = (Some LIBUSB_SUCCESS, restart_failed)"
    then have "events_since restart_failed (snd (windows_stop_event_monitor os_healthy restart_failed)) = []"
      by (simp add: events_since_def)
    with ev show False by simp
  qed
  from st tm rf ev ne show ?thesis by simp
qed

end
